theory Spec2Isabelle
  imports Main "HOL-Library.Sublist"
begin

section \<open>The Ollama installer (main.go) as HOL functions\<close>

text \<open>
  The program is one Go file: it asks the GitHub API for the latest release tag
  (\<open>getLatestOllamaVersion\<close>), formats a download URL (\<open>getDownloadURL\<close>), runs
  curl, tar, mv and chmod (\<open>installOllama\<close>) and appends a PATH export line to a shell
  start-up file (\<open>updatePath\<close>, \<open>fileExists\<close>, \<open>appendToFile\<close>).

  Go strings are byte sequences: \<open>string\<close>. A Go \<open>error\<close> is represented by its message,
  a \<open>nil\<close> error by \<open>None\<close>. A function returning \<open>(T, error)\<close> returns a pair. Everything
  the program reads from or does to its machine goes through one record, \<open>world\<close>.
\<close>

subsection \<open>Strings: fmt.Sprintf, strings.Contains, strings.Join\<close>

type_synonym error = string

abbreviation nl :: char where "nl \<equiv> CHR 0x0A"

abbreviation cr :: char where "cr \<equiv> CHR 0x0D"

text \<open>
  \<open>fmt.Sprintf\<close>, \<open>fmt.Printf\<close> and \<open>fmt.Errorf\<close> for the verbs the program uses:
  \<open>%s\<close>, \<open>%v\<close> and \<open>%w\<close>, each applied to a string or to an error (whose message is
  printed). The operand is copied verbatim; \<open>%%\<close> prints a percent sign, a verb
  without operand \<open>%!s(MISSING)\<close>, a percent sign at the end \<open>%!(NOVERB)\<close>. Other
  verbs and surplus operands do not occur in main.go: such a verb is copied through.
\<close>

fun Sprintf :: "string \<Rightarrow> string list \<Rightarrow> string" where
  "Sprintf [] args = []"
| "Sprintf [c] args = (if c = CHR ''%'' then ''%!(NOVERB)'' else [c])"
| "Sprintf (c # v # fmt) args =
     (if c = CHR ''%'' then
        (if v = CHR ''s'' \<or> v = CHR ''v'' \<or> v = CHR ''w'' then
           (case args of
              [] \<Rightarrow> ''%!'' @ [v] @ ''(MISSING)'' @ Sprintf fmt []
            | a # as \<Rightarrow> a @ Sprintf fmt as)
         else if v = CHR ''%'' then CHR ''%'' # Sprintf fmt args
         else c # v # Sprintf fmt args)
      else c # Sprintf (v # fmt) args)"

definition Errorf :: "string \<Rightarrow> string list \<Rightarrow> error" where
  "Errorf fmt args = Sprintf fmt args"

text \<open>\<open>strings.Contains(s, substr)\<close>: \<open>substr\<close> occurs in \<open>s\<close> as a contiguous run of bytes.\<close>

fun Contains :: "string \<Rightarrow> string \<Rightarrow> bool" where
  "Contains [] substr = (substr = [])"
| "Contains (c # s) substr = (prefix substr (c # s) \<or> Contains s substr)"

text \<open>\<open>strings.Join(elems, sep)\<close>.\<close>

fun strings_Join :: "string list \<Rightarrow> string \<Rightarrow> string" where
  "strings_Join [] sep = []"
| "strings_Join [x] sep = x"
| "strings_Join (x # y # xs) sep = x @ sep @ strings_Join (y # xs) sep"

text \<open>Cutting a string at every occurrence of one byte; the pieces never contain it.\<close>

fun split_on :: "char \<Rightarrow> string \<Rightarrow> string list" where
  "split_on d [] = [[]]"
| "split_on d (c # cs) =
     (if c = d then [] # split_on d cs
      else (case split_on d cs of
              [] \<Rightarrow> [[c]]
            | x # xs \<Rightarrow> (c # x) # xs))"

subsection \<open>getDownloadURL (main.go, lines 35-38)\<close>

definition getDownloadURL :: "string \<Rightarrow> string" where
  "getDownloadURL version =
     Sprintf ''https://github.com/ollama/ollama/releases/download/%s/ollama-linux-amd64.tgz''
       [version]"

subsection \<open>Paths: filepath.Join and filepath.Clean on Unix\<close>

text \<open>
  \<open>filepath.Clean\<close> works on the elements between slashes: empty elements and \<open>.\<close>
  are dropped, \<open>..\<close> removes the element before it, is dropped at the root, and is
  kept at the front of a relative path; the empty result is \<open>.\<close>. \<open>out\<close> holds the
  elements written so far, the last one first.
\<close>

definition clean_step :: "bool \<Rightarrow> string list \<Rightarrow> string \<Rightarrow> string list" where
  "clean_step rooted out e =
     (if e = [] \<or> e = ''.'' then out
      else if e = ''..'' then
        (case out of
           [] \<Rightarrow> if rooted then [] else [''..'']
         | x # xs \<Rightarrow> if x = ''..'' then ''..'' # out else xs)
      else e # out)"

definition Clean :: "string \<Rightarrow> string" where
  "Clean path =
     (if path = [] then ''.''
      else let rooted = (hd path = CHR ''/'');
               out = foldl (clean_step rooted) [] (split_on CHR ''/'' path)
           in if rooted then ''/'' @ strings_Join (rev out) ''/''
              else if out = [] then ''.''
              else strings_Join (rev out) ''/'')"

text \<open>
  \<open>filepath.Join\<close> skips leading empty elements, joins the rest with slashes and
  cleans the result; with nothing left it returns the empty string.
\<close>

definition Join :: "string list \<Rightarrow> string" where
  "Join elem =
     (case dropWhile (\<lambda>e. e = []) elem of
        [] \<Rightarrow> []
      | e # es \<Rightarrow> Clean (strings_Join (e # es) ''/''))"

text \<open>\<open>under d p\<close>: the path \<open>p\<close> is the directory \<open>d\<close> or lies below it.\<close>

definition under :: "string \<Rightarrow> string \<Rightarrow> bool" where
  "under d p = (p = d \<or> prefix (d @ ''/'') p)"

subsection \<open>The machine: files, console, environment\<close>

text \<open>
  A file has its bytes and two permissions of the running user. \<open>files\<close> maps a path
  to the regular file there. \<open>stdout\<close> collects the output of each \<open>fmt.Printf\<close>,
  \<open>trace\<close> the calls that leave the program: HTTP requests, child processes, and
  directory and file removal.

  The other fields are the machine's answers and never change: \<open>HOME\<close> is the
  environment variable; \<open>may_create p\<close> says whether a new file can be created at \<open>p\<close>;
  \<open>disk_full\<close> makes every write fail; \<open>mkdir_error\<close> is the result of \<open>os.MkdirAll\<close>;
  \<open>exit_status argv\<close> is the result of running the command \<open>argv\<close> (\<open>None\<close>: exit
  code 0) and \<open>effect argv\<close> what it does to the files; \<open>http_response url\<close> is the
  answer to a GET request.
\<close>

record os_file =
  content :: string
  readable :: bool
  writable :: bool

datatype event =
    HttpGet string
  | Exec "string list"
  | MkdirAllCall string
  | RemoveAllCall string
  | RemoveCall string

text \<open>
  A JSON value as \<open>encoding/json\<close> reads it: strings are already unquoted, numbers keep
  their digits, the members of an object keep their order and their duplicates.
\<close>

datatype json =
    JNull
  | JBool bool
  | JNumber string
  | JString string
  | JArray "json list"
  | JObject "(string \<times> json) list"

text \<open>
  A response body, as \<open>json.Decoder\<close> scans it: the first JSON value of the stream
  (what follows it is not read), or the error of the scanner (a syntax error, or EOF
  for an empty body).
\<close>

datatype body = Malformed error | Value json

record world =
  files :: "string \<rightharpoonup> os_file"
  stdout :: "string list"
  trace :: "event list"
  HOME :: string
  may_create :: "string \<Rightarrow> bool"
  disk_full :: bool
  mkdir_error :: "string \<Rightarrow> error option"
  exit_status :: "string list \<Rightarrow> error option"
  effect :: "string list \<Rightarrow> (string \<rightharpoonup> os_file) \<Rightarrow> (string \<rightharpoonup> os_file)"
  http_response :: "string \<Rightarrow> error + body"

definition Printf :: "string \<Rightarrow> string list \<Rightarrow> world \<Rightarrow> world" where
  "Printf fmt args w = w\<lparr>stdout := stdout w @ [Sprintf fmt args]\<rparr>"

subsection \<open>Reading a file: os.Open and bufio.Scanner\<close>

text \<open>\<open>os.Open\<close> fails when there is no file at the path or it cannot be read.\<close>

definition os_Open :: "world \<Rightarrow> string \<Rightarrow> error + string" where
  "os_Open w name =
     (case files w name of
        None \<Rightarrow> Inl (''open '' @ name @ '': no such file or directory'')
      | Some f \<Rightarrow>
          if readable f then Inr (content f)
          else Inl (''open '' @ name @ '': permission denied''))"

text \<open>
  \<open>bufio.Scanner\<close> with the default split function \<open>ScanLines\<close>: the data is cut at
  every newline, a last line without newline counts when it is not empty, and one
  trailing carriage return is dropped from each line. A line of \<open>MaxScanTokenSize\<close>
  bytes or more does not fit the buffer: \<open>Scan\<close> returns false there
  (\<open>ErrTooLong\<close>) and the lines after it are never seen.
\<close>

definition text_lines :: "string \<Rightarrow> string list" where
  "text_lines data =
     (let segs = split_on nl data in if last segs = [] then butlast segs else segs)"

definition dropCR :: "string \<Rightarrow> string" where
  "dropCR l = (if l \<noteq> [] \<and> last l = cr then butlast l else l)"

definition MaxScanTokenSize :: nat where
  "MaxScanTokenSize = 64 * 1024"

definition Scanner_lines :: "string \<Rightarrow> string list" where
  "Scanner_lines data =
     map dropCR (takeWhile (\<lambda>l. length l < MaxScanTokenSize) (text_lines data))"

subsection \<open>fileExists and appendToFile (main.go, lines 156-173)\<close>

definition fileExists :: "world \<Rightarrow> string \<Rightarrow> bool" where
  "fileExists w filename = (files w filename \<noteq> None)"

text \<open>
  \<open>os.OpenFile(filePath, O_APPEND|O_CREATE|O_WRONLY, 0644)\<close>: an existing file must be
  writable; a missing one is created empty, with mode 0644, where the machine allows it.
\<close>

definition OpenFile_append :: "string \<Rightarrow> world \<Rightarrow> error option \<times> world" where
  "OpenFile_append name w =
     (case files w name of
        Some f \<Rightarrow>
          if writable f then (None, w)
          else (Some (''open '' @ name @ '': permission denied''), w)
      | None \<Rightarrow>
          if may_create w name
          then (None, w\<lparr>files := (files w)(name \<mapsto>
                  \<lparr>content = [], readable = True, writable = True\<rparr>)\<rparr>)
          else (Some (''open '' @ name @ '': no such file or directory''), w))"

text \<open>\<open>file.WriteString\<close> on a file opened for appending: all of the text, or an error.\<close>

definition WriteString :: "string \<Rightarrow> string \<Rightarrow> world \<Rightarrow> error option \<times> world" where
  "WriteString name s w =
     (case files w name of
        None \<Rightarrow> (Some (''write '' @ name @ '': file already closed''), w)
      | Some f \<Rightarrow>
          if disk_full w then (Some (''write '' @ name @ '': no space left on device''), w)
          else (None, w\<lparr>files := (files w)(name \<mapsto> f\<lparr>content := content f @ s\<rparr>)\<rparr>))"

definition appendToFile :: "string \<Rightarrow> string \<Rightarrow> world \<Rightarrow> error option \<times> world" where
  "appendToFile filePath text w =
     (case OpenFile_append filePath w of
        (Some err, w1) \<Rightarrow> (Some (Errorf ''failed to open %s: %w'' [filePath, err]), w1)
      | (None, w1) \<Rightarrow>
          (case WriteString filePath ([nl] @ text @ [nl]) w1 of
             (Some err, w2) \<Rightarrow>
               (Some (Errorf ''failed to write to %s: %w'' [filePath, err]), w2)
           | (None, w2) \<Rightarrow> (None, w2)))"

subsection \<open>updatePath (main.go, lines 101-154)\<close>

definition pathExport :: string where
  \<open>pathExport = ''export PATH="$HOME/bin:$PATH"''\<close>

definition configFiles :: "string list" where
  "configFiles = [''.zshrc'', ''.bash_profile'', ''.bashrc'', ''.profile'']"

text \<open>The inner loop (lines 113-118): some line of the scanner contains the export.\<close>

definition has_export :: "string list \<Rightarrow> bool" where
  "has_export ls = list_ex (\<lambda>l. Contains l pathExport) ls"

text \<open>
  The outer loop (lines 107-121) over the configuration files left to check: true when
  it returns early. A file that does not open is skipped.
\<close>

fun already_exported :: "world \<Rightarrow> string \<Rightarrow> string list \<Rightarrow> bool" where
  "already_exported w homeDir [] = False"
| "already_exported w homeDir (configFile # rest) =
     (case os_Open w (Join [homeDir, configFile]) of
        Inr data \<Rightarrow>
          if has_export (Scanner_lines data) then True
          else already_exported w homeDir rest
      | Inl err \<Rightarrow> already_exported w homeDir rest)"

text \<open>
  After the loop, the four attempts (lines 123-151). The first one is made only if
  \<open>.zshrc\<close> exists; when it is not made, \<open>err1\<close> is a placeholder and the machine
  stays as it is.
\<close>

definition updatePath :: "string \<Rightarrow> world \<Rightarrow> error option \<times> world" where
  "updatePath homeDir w =
     (if already_exported w homeDir configFiles then (None, w)
      else
        let zshrcPath = Join [homeDir, ''.zshrc''];
            (err1, w1) = (if fileExists w zshrcPath
                          then appendToFile zshrcPath pathExport w
                          else (Some [], w))
        in if fileExists w zshrcPath \<and> err1 = None
           then (None, Printf (''Updated .zshrc with PATH export'' @ [nl]) [] w1)
           else
             let bashProfilePath = Join [homeDir, ''.bash_profile''];
                 (err2, w2) = appendToFile bashProfilePath pathExport w1
             in if err2 = None
                then (None, Printf (''Updated .bash_profile with PATH export'' @ [nl]) [] w2)
                else
                  let bashrcPath = Join [homeDir, ''.bashrc''];
                      (err3, w3) = appendToFile bashrcPath pathExport w2
                  in if err3 = None
                     then (None, Printf (''Updated .bashrc with PATH export'' @ [nl]) [] w3)
                     else
                       let profilePath = Join [homeDir, ''.profile''];
                           (err4, w4) = appendToFile profilePath pathExport w3
                       in if err4 = None
                          then (None,
                                Printf (''Updated .profile with PATH export'' @ [nl]) [] w4)
                          else (Some (Errorf
                                  ''failed to update any shell configuration file'' []),
                                w4))"

subsection \<open>External commands and directories\<close>

text \<open>
  \<open>os.UserHomeDir\<close> on Linux: the value of \<open>$HOME\<close>, or the empty string and an
  error when the variable is unset or empty.
\<close>

definition UserHomeDir :: "world \<Rightarrow> string \<times> error option" where
  "UserHomeDir w =
     (if HOME w \<noteq> [] then (HOME w, None) else ([], Some ''$HOME is not defined''))"

text \<open>
  \<open>exec.Command(argv...).Run()\<close>: the command runs to its end and does to the files
  what the machine says, \<open>effect w argv\<close>; nothing confines it to the paths among its
  arguments. \<open>Run\<close> returns an error when the command cannot start or exits with a
  nonzero code.
\<close>

definition Run :: "string list \<Rightarrow> world \<Rightarrow> error option \<times> world" where
  "Run argv w =
     (exit_status w argv,
      w\<lparr>files := effect w argv (files w), trace := trace w @ [Exec argv]\<rparr>)"

definition MkdirAll :: "string \<Rightarrow> world \<Rightarrow> error option \<times> world" where
  "MkdirAll path w = (mkdir_error w path, w\<lparr>trace := trace w @ [MkdirAllCall path]\<rparr>)"

definition RemoveAll :: "string \<Rightarrow> world \<Rightarrow> world" where
  "RemoveAll path w =
     w\<lparr>files := (\<lambda>p. if under path p then None else files w p),
       trace := trace w @ [RemoveAllCall path]\<rparr>"

definition Remove :: "string \<Rightarrow> world \<Rightarrow> world" where
  "Remove name w = w\<lparr>files := (files w)(name := None), trace := trace w @ [RemoveCall name]\<rparr>"

subsection \<open>installOllama (main.go, lines 40-99)\<close>

definition installOllama :: "string \<Rightarrow> world \<Rightarrow> error option \<times> world" where
  "installOllama url w =
     (let homeDir = fst (UserHomeDir w);
          tempFile = Join [homeDir, ''ollama.tgz''];
          w1 = Printf (''Downloading Ollama from %s...'' @ [nl]) [url] w
      in case Run [''curl'', ''-L'', ''-#'', url, ''-o'', tempFile] w1 of
        (Some err, w2) \<Rightarrow> (Some (Errorf ''failed to download: %w'' [err]), w2)
      | (None, w2) \<Rightarrow>
     (let binDir = Join [homeDir, ''bin'']
      in case MkdirAll binDir w2 of
        (Some err, w3) \<Rightarrow> (Some (Errorf ''failed to create bin directory: %w'' [err]), w3)
      | (None, w3) \<Rightarrow>
     (let tempDir = Join [homeDir, ''ollama-extract''];
          w4 = RemoveAll tempDir w3;
          w5 = snd (MkdirAll tempDir w4);
          w6 = Printf (''Extracting Ollama binary...'' @ [nl]) [] w5
      in case Run [''tar'', ''-xzf'', tempFile, ''-C'', tempDir] w6 of
        (Some err, w7) \<Rightarrow> (Some (Errorf ''failed to extract: %w'' [err]), w7)
      | (None, w7) \<Rightarrow>
     (let finalPath = Join [binDir, ''ollama'']
      in case Run [''mv'', Join [tempDir, ''bin'', ''ollama''], finalPath] w7 of
        (Some err, w8) \<Rightarrow> (Some (Errorf ''failed to move binary: %w'' [err]), w8)
      | (None, w8) \<Rightarrow>
     (case Run [''chmod'', ''+x'', finalPath] w8 of
        (Some err, w9) \<Rightarrow> (Some (Errorf ''failed to make executable: %w'' [err]), w9)
      | (None, w9) \<Rightarrow>
     (let w10 = Remove tempFile w9;
          w11 = RemoveAll tempDir w10;
          (err, w12) = updatePath homeDir w11;
          w13 = (case err of
                   Some e \<Rightarrow> Printf (''Warning: Failed to update PATH: %v'' @ [nl]) [e] w12
                 | None \<Rightarrow> w12);
          w14 = Printf (''Ollama installed successfully to %s'' @ [nl]) [finalPath] w13;
          w15 = Printf (''Please restart your terminal OR log out and log back in to use the new version'' @ [nl]) [] w14
      in (None, w15)))))))"

subsection \<open>getLatestOllamaVersion (main.go, lines 16-33)\<close>

record GitHubRelease =
  TagName :: string

definition http_Get :: "string \<Rightarrow> world \<Rightarrow> (error + body) \<times> world" where
  "http_Get url w = (http_response w url, w\<lparr>trace := trace w @ [HttpGet url]\<rparr>)"

text \<open>
  \<open>encoding/json\<close> finds the struct field for an object key by the name in the field's
  tag, \<open>tag_name\<close>: an exact match first, a match that ignores letter case otherwise.
  Case is folded on ASCII letters (the two non-ASCII letters that Go folds to ASCII
  give K and S, which \<open>tag_name\<close> does not have).
\<close>

definition to_upper :: "char \<Rightarrow> char" where
  "to_upper c =
     (case map_of (zip ''abcdefghijklmnopqrstuvwxyz'' ''ABCDEFGHIJKLMNOPQRSTUVWXYZ'') c of
        Some u \<Rightarrow> u
      | None \<Rightarrow> c)"

definition foldName :: "string \<Rightarrow> string" where
  "foldName s = map to_upper s"

definition is_TagName :: "string \<Rightarrow> bool" where
  "is_TagName key = (key = ''tag_name'' \<or> foldName key = foldName ''tag_name'')"

definition json_kind :: "json \<Rightarrow> string" where
  "json_kind j =
     (case j of
        JNull \<Rightarrow> ''null''
      | JBool b \<Rightarrow> ''bool''
      | JNumber n \<Rightarrow> ''number''
      | JString s \<Rightarrow> ''string''
      | JArray xs \<Rightarrow> ''array''
      | JObject ms \<Rightarrow> ''object'')"

text \<open>
  One member of the object. A string is stored in the field, \<open>null\<close> leaves it as it
  is, any other value is a type error: the decoder keeps the first one and goes on.
  A member for no field of the struct is skipped.
\<close>

definition decode_member ::
  "GitHubRelease \<times> error option \<Rightarrow> string \<times> json \<Rightarrow> GitHubRelease \<times> error option" where
  "decode_member acc m =
     (if is_TagName (fst m) then
        (case snd m of
           JString s \<Rightarrow> ((fst acc)\<lparr>TagName := s\<rparr>, snd acc)
         | JNull \<Rightarrow> acc
         | _ \<Rightarrow>
             (fst acc,
              if snd acc = None
              then Some (''json: cannot unmarshal '' @ json_kind (snd m) @
                         '' into Go struct field GitHubRelease.tag_name of type string'')
              else snd acc))
      else acc)"

text \<open>
  \<open>json.NewDecoder(body).Decode(&release)\<close>: \<open>null\<close> leaves the struct as it is, an
  object is read member by member, any other value is a type error.
\<close>

definition Decode :: "body \<Rightarrow> GitHubRelease \<Rightarrow> GitHubRelease \<times> error option" where
  "Decode b release =
     (case b of
        Malformed err \<Rightarrow> (release, Some err)
      | Value JNull \<Rightarrow> (release, None)
      | Value (JObject ms) \<Rightarrow> foldl decode_member (release, None) ms
      | Value j \<Rightarrow>
          (release,
           Some (''json: cannot unmarshal '' @ json_kind j @
                 '' into Go value of type main.GitHubRelease'')))"

definition getLatestOllamaVersion :: "world \<Rightarrow> (string \<times> error option) \<times> world" where
  "getLatestOllamaVersion w =
     (case http_Get ''https://api.github.com/repos/ollama/ollama/releases/latest'' w of
        (Inl err, w1) \<Rightarrow> (([], Some (Errorf ''failed to fetch latest release: %w'' [err])), w1)
      | (Inr resp_Body, w1) \<Rightarrow>
          (case Decode resp_Body \<lparr>TagName = []\<rparr> of
             (release, Some err) \<Rightarrow>
               (([], Some (Errorf ''failed to decode response: %w'' [err])), w1)
           | (release, None) \<Rightarrow> ((TagName release, None), w1)))"

subsection \<open>main (main.go, lines 175-189)\<close>

definition main :: "world \<Rightarrow> world" where
  "main w =
     (case getLatestOllamaVersion w of
        ((version, Some err), w1) \<Rightarrow>
          Printf (''Error getting latest version: %v'' @ [nl]) [err] w1
      | ((version, None), w1) \<Rightarrow>
          (let url = getDownloadURL version;
               w2 = Printf (''Latest Ollama version: %s'' @ [nl]) [version] w1
           in case installOllama url w2 of
                (Some err, w3) \<Rightarrow> Printf (''Installation failed: %v'' @ [nl]) [err] w3
              | (None, w3) \<Rightarrow> w3))"

section \<open>Notions used in the statements\<close>

subsection \<open>Paths\<close>

text \<open>A file name proper: one path element that \<open>Clean\<close> keeps as it is.\<close>

definition simple_name :: "string \<Rightarrow> bool" where
  "simple_name x = (CHR ''/'' \<notin> set x \<and> x \<noteq> [] \<and> x \<noteq> ''.'' \<and> x \<noteq> ''..'')"

text \<open>
  The elements \<open>Clean\<close> keeps of a directory \<open>h\<close>, and the text that \<open>Join\<close> puts in
  front of a file name joined to \<open>h\<close>: for \<open>/home/u\<close> it is \<open>/home/u/\<close>, for the
  empty string it is empty.
\<close>

definition clean_out :: "string \<Rightarrow> string list" where
  "clean_out h = foldl (clean_step (h \<noteq> [] \<and> hd h = CHR ''/'')) [] (split_on CHR ''/'' h)"

definition dir_prefix :: "string \<Rightarrow> string" where
  "dir_prefix h =
     (if h \<noteq> [] \<and> hd h = CHR ''/'' then ''/'' else []) @
     (if clean_out h = [] then [] else strings_Join (rev (clean_out h)) ''/'' @ ''/'')"

text \<open>The shape of the element list of a cleaned path, and the path it stands for.\<close>

fun valid_out :: "bool \<Rightarrow> string list \<Rightarrow> bool" where
  "valid_out r [] = True"
| "valid_out r (x # xs) =
     (CHR ''/'' \<notin> set x \<and> x \<noteq> [] \<and> x \<noteq> ''.'' \<and>
      (x = ''..'' \<longrightarrow> \<not> r \<and> (xs = [] \<or> hd xs = ''..'')) \<and> valid_out r xs)"

definition render :: "bool \<Rightarrow> string list \<Rightarrow> string" where
  "render r out = (if r then ''/'' else []) @ strings_Join (rev out) ''/''"

subsection \<open>Shell configuration files\<close>

text \<open>The bytes at a path; a missing file has none.\<close>

definition content_at :: "world \<Rightarrow> string \<Rightarrow> string" where
  "content_at w p = (case files w p of None \<Rightarrow> [] | Some f \<Rightarrow> content f)"

text \<open>The lines \<open>updatePath\<close> reads from a path: none when the file does not open.\<close>

definition read_lines :: "world \<Rightarrow> string \<Rightarrow> string list" where
  "read_lines w p = (case os_Open w p of Inr data \<Rightarrow> Scanner_lines data | Inl err \<Rightarrow> [])"

text \<open>
  \<open>can_append w p\<close>: an append to \<open>p\<close> succeeds. \<open>appended w p\<close>: the file at \<open>p\<close> after
  it. \<open>append_order\<close>: the paths \<open>updatePath\<close> tries, in its order.
\<close>

definition can_append :: "world \<Rightarrow> string \<Rightarrow> bool" where
  "can_append w p =
     (\<not> disk_full w \<and> (case files w p of Some f \<Rightarrow> writable f | None \<Rightarrow> may_create w p))"

definition appended :: "world \<Rightarrow> string \<Rightarrow> os_file" where
  "appended w p =
     (case files w p of
        Some f \<Rightarrow> f\<lparr>content := content f @ [nl] @ pathExport @ [nl]\<rparr>
      | None \<Rightarrow> \<lparr>content = [nl] @ pathExport @ [nl], readable = True, writable = True\<rparr>)"

definition append_order :: "world \<Rightarrow> string \<Rightarrow> string list" where
  "append_order w homeDir =
     (if fileExists w (Join [homeDir, ''.zshrc'']) then [Join [homeDir, ''.zshrc'']] else []) @
     [Join [homeDir, ''.bash_profile''], Join [homeDir, ''.bashrc''], Join [homeDir, ''.profile'']]"




subsection \<open>The installer\<close>

text \<open>
  The machine at line 92, where \<open>installOllama\<close> calls \<open>updatePath\<close>: what the
  steps of lines 42-89 make of \<open>w\<close> when none of them returns early.
\<close>

definition before_updatePath :: "string \<Rightarrow> world \<Rightarrow> world" where
  "before_updatePath url w =
     (let homeDir = fst (UserHomeDir w);
          tempFile = Join [homeDir, ''ollama.tgz''];
          binDir = Join [homeDir, ''bin''];
          tempDir = Join [homeDir, ''ollama-extract''];
          finalPath = Join [binDir, ''ollama''];
          w1 = Printf (''Downloading Ollama from %s...'' @ [nl]) [url] w;
          w2 = snd (Run [''curl'', ''-L'', ''-#'', url, ''-o'', tempFile] w1);
          w3 = snd (MkdirAll binDir w2);
          w4 = RemoveAll tempDir w3;
          w5 = snd (MkdirAll tempDir w4);
          w6 = Printf (''Extracting Ollama binary...'' @ [nl]) [] w5;
          w7 = snd (Run [''tar'', ''-xzf'', tempFile, ''-C'', tempDir] w6);
          w8 = snd (Run [''mv'', Join [tempDir, ''bin'', ''ollama''], finalPath] w7);
          w9 = snd (Run [''chmod'', ''+x'', finalPath] w8);
          w10 = Remove tempFile w9
      in RemoveAll tempDir w10)"

text \<open>The command lines of the four steps, for the home directory of the machine.\<close>

definition curl_command :: "string \<Rightarrow> world \<Rightarrow> string list" where
  "curl_command url w =
     [''curl'', ''-L'', ''-#'', url, ''-o'', Join [fst (UserHomeDir w), ''ollama.tgz'']]"

definition tar_command :: "world \<Rightarrow> string list" where
  "tar_command w =
     [''tar'', ''-xzf'', Join [fst (UserHomeDir w), ''ollama.tgz''], ''-C'',
      Join [fst (UserHomeDir w), ''ollama-extract'']]"

definition mv_command :: "world \<Rightarrow> string list" where
  "mv_command w =
     [''mv'', Join [Join [fst (UserHomeDir w), ''ollama-extract''], ''bin'', ''ollama''],
      Join [Join [fst (UserHomeDir w), ''bin''], ''ollama'']]"

definition chmod_command :: "world \<Rightarrow> string list" where
  "chmod_command w = [''chmod'', ''+x'', Join [Join [fst (UserHomeDir w), ''bin''], ''ollama'']]"

text \<open>The path of the installed binary, \<open><home>/bin/ollama\<close>.\<close>

definition final_path :: "world \<Rightarrow> string" where
  "final_path w = Join [Join [fst (UserHomeDir w), ''bin''], ''ollama'']"

subsection \<open>The version resolver\<close>




subsection \<open>Example machines\<close>

text \<open>
  A machine with the home directory \<open>/home/u\<close>, the files \<open>fs\<close>, no network, and
  commands that all succeed and change nothing; \<open>mc\<close> says where files can be created.
\<close>

definition machine :: "(string \<rightharpoonup> os_file) \<Rightarrow> (string \<Rightarrow> bool) \<Rightarrow> world" where
  "machine fs mc =
     \<lparr>files = fs, stdout = [], trace = [], HOME = ''/home/u'', may_create = mc,
      disk_full = False, mkdir_error = (\<lambda>p. None), exit_status = (\<lambda>argv. None),
      effect = (\<lambda>argv fs. fs), http_response = (\<lambda>url. Inl ''no network'')\<rparr>"

definition plain_file :: "string \<Rightarrow> os_file" where
  "plain_file data = \<lparr>content = data, readable = True, writable = True\<rparr>"



text \<open>An empty home directory, and one where nothing can be created.\<close>

definition empty_home :: world where
  "empty_home = machine Map.empty (\<lambda>p. True)"

definition readonly_home :: world where
  "readonly_home = machine Map.empty (\<lambda>p. False)"





text \<open>A machine without \<open>$HOME\<close>.\<close>

definition no_home :: world where
  "no_home = (machine Map.empty (\<lambda>p. True))\<lparr>HOME := []\<rparr>"





definition unterminated_zshrc :: world where
  "unterminated_zshrc = machine [''/home/u/.zshrc'' \<mapsto> plain_file ''abc''] (\<lambda>p. True)"



section \<open>Properties\<close>

subsection \<open>Strings\<close>

lemma Contains_iff: "Contains s sub \<longleftrightarrow> (\<exists>a b. s = a @ sub @ b)"
proof (induction s)
  case Nil
  then show ?case by auto
next
  case (Cons c s)
  show ?case
  proof
    assume "Contains (c # s) sub"
    then consider "prefix sub (c # s)" | "Contains s sub" by auto
    then show "\<exists>a b. c # s = a @ sub @ b"
    proof cases
      case 1
      then obtain b where "c # s = sub @ b" by (auto simp: prefix_def)
      then have "c # s = [] @ sub @ b" by simp
      then show ?thesis by blast
    next
      case 2
      with Cons.IH obtain a b where "s = a @ sub @ b" by blast
      then have "c # s = (c # a) @ sub @ b" by simp
      then show ?thesis by blast
    qed
  next
    assume "\<exists>a b. c # s = a @ sub @ b"
    then obtain a b where ab: "c # s = a @ sub @ b" by blast
    show "Contains (c # s) sub"
    proof (cases a)
      case Nil
      with ab have "prefix sub (c # s)" by (simp add: prefix_def)
      then show ?thesis by simp
    next
      case (Cons x a')
      with ab have "s = a' @ sub @ b" by simp
      with Cons.IH have "Contains s sub" by blast
      then show ?thesis by simp
    qed
  qed
qed

subsection \<open>Paths\<close>

lemma split_on_nonempty: "split_on d s \<noteq> []"
  by (induction s) (auto split: list.splits)

lemma split_on_append: "split_on d (a @ d # b) = split_on d a @ split_on d b"
proof (induction a)
  case Nil
  then show ?case by simp
next
  case (Cons c a)
  then show ?case using split_on_nonempty [of d a] by (cases "split_on d a") auto
qed

lemma split_on_no_delim: "d \<notin> set x \<Longrightarrow> split_on d x = [x]"
  by (induction x) auto

lemma split_on_pieces: "x \<in> set (split_on d s) \<Longrightarrow> d \<notin> set x"
proof (induction s arbitrary: x)
  case Nil
  then show ?case by simp
next
  case (Cons c s)
  show ?case
  proof (cases "c = d")
    case True
    with Cons show ?thesis by auto
  next
    case False
    obtain y ys where eq: "split_on d s = y # ys"
      using split_on_nonempty [of d s] by (cases "split_on d s") auto
    with False Cons.prems have "x = c # y \<or> x \<in> set ys" by auto
    then show ?thesis
    proof
      assume "x = c # y"
      moreover have "d \<notin> set y" using Cons.IH eq by simp
      ultimately show ?thesis using False by auto
    next
      assume "x \<in> set ys"
      then show ?thesis using Cons.IH eq by simp
    qed
  qed
qed

lemma strings_Join_snoc:
  "strings_Join (ys @ [x]) sep = (if ys = [] then x else strings_Join ys sep @ sep @ x)"
  by (induction ys sep rule: strings_Join.induct) auto

lemma clean_step_simple: "simple_name x \<Longrightarrow> clean_step r out x = x # out"
  by (simp add: clean_step_def simple_name_def)

lemma Clean_append_simple:
  assumes "simple_name x" "h \<noteq> []"
  shows "Clean (h @ ''/'' @ x) = dir_prefix h @ x"
proof -
  define r where "r = (hd h = CHR ''/'')"
  define out where "out = foldl (clean_step r) [] (split_on CHR ''/'' h)"
  have sp: "split_on CHR ''/'' (h @ CHR ''/'' # x) = split_on CHR ''/'' h @ [x]"
    using assms split_on_append [of "CHR ''/''" h x] split_on_no_delim [of "CHR ''/''" x]
    by (simp add: simple_name_def)
  have hd: "hd (h @ CHR ''/'' # x) = hd h" using assms by simp
  have fl: "foldl (clean_step r) [] (split_on CHR ''/'' (h @ CHR ''/'' # x)) = x # out"
    using assms by (simp add: sp out_def clean_step_simple)
  have "Clean (h @ CHR ''/'' # x) =
        (if r then ''/'' @ strings_Join (rev (x # out)) ''/'' else strings_Join (rev (x # out)) ''/'')"
    unfolding Clean_def Let_def hd r_def [symmetric] fl by simp
  moreover have "dir_prefix h =
        (if r then ''/'' else []) @ (if out = [] then [] else strings_Join (rev out) ''/'' @ ''/'')"
    using assms by (simp add: dir_prefix_def clean_out_def r_def out_def)
  ultimately show ?thesis by (simp add: strings_Join_snoc)
qed

lemma Clean_simple: "simple_name x \<Longrightarrow> Clean x = x"
proof -
  assume s: "simple_name x"
  then have "hd x \<noteq> CHR ''/''" by (cases x) (auto simp: simple_name_def)
  moreover have "split_on CHR ''/'' x = [x]" using s by (simp add: split_on_no_delim simple_name_def)
  ultimately show ?thesis using s by (simp add: Clean_def clean_step_simple) (simp add: simple_name_def)
qed

lemma Join_simple: "simple_name x \<Longrightarrow> Join [h, x] = dir_prefix h @ x"
proof (cases "h = []")
  case True
  assume "simple_name x"
  then show ?thesis using True
    by (simp add: Join_def Clean_simple dir_prefix_def clean_out_def clean_step_def)
next
  case False
  assume "simple_name x"
  then show ?thesis using False Clean_append_simple [of x h] by (simp add: Join_def)
qed

lemma valid_out_elems: "valid_out r out \<Longrightarrow> x \<in> set out \<Longrightarrow> CHR ''/'' \<notin> set x \<and> x \<noteq> []"
  by (induction out) auto

lemma valid_clean_step:
  assumes "valid_out r out" "CHR ''/'' \<notin> set e"
  shows "valid_out r (clean_step r out e)"
proof (cases out)
  case Nil
  then show ?thesis using assms by (simp add: clean_step_def)
next
  case (Cons x xs)
  then show ?thesis using assms by (cases xs) (auto simp: clean_step_def)
qed

lemma valid_foldl:
  "valid_out r out \<Longrightarrow> \<forall>e\<in>set es. CHR ''/'' \<notin> set e \<Longrightarrow>
   valid_out r (foldl (clean_step r) out es)"
  by (induction es arbitrary: out) (simp_all add: valid_clean_step)

lemma valid_clean_out: "valid_out (h \<noteq> [] \<and> hd h = CHR ''/'') (clean_out h)"
  unfolding clean_out_def by (rule valid_foldl) (auto dest: split_on_pieces)

lemma split_on_Join:
  "\<forall>x\<in>set ys. d \<notin> set x \<Longrightarrow> ys \<noteq> [] \<Longrightarrow> split_on d (strings_Join ys [d]) = ys"
proof (induction ys "[d]" rule: strings_Join.induct)
  case 1
  then show ?case by simp
next
  case (2 x)
  then show ?case by (simp add: split_on_no_delim)
next
  case (3 x y xs)
  then have "split_on d (x @ d # strings_Join (y # xs) [d]) = [x] @ (y # xs)"
    by (simp only: split_on_append) (simp add: split_on_no_delim)
  then show ?case by simp
qed

lemma foldl_clean_rev: "valid_out r out \<Longrightarrow> foldl (clean_step r) [] (rev out) = out"
proof (induction out)
  case Nil
  then show ?case by simp
next
  case (Cons x xs)
  then have "foldl (clean_step r) [] (rev (x # xs)) = clean_step r xs x" by simp
  also have "\<dots> = x # xs" using Cons.prems by (cases xs) (auto simp: clean_step_def)
  finally show ?case .
qed

lemma hd_strings_Join:
  "ys \<noteq> [] \<Longrightarrow> hd ys \<noteq> [] \<Longrightarrow> strings_Join ys sep \<noteq> [] \<and> hd (strings_Join ys sep) = hd (hd ys)"
  by (induction ys sep rule: strings_Join.induct) auto

lemma render_clean:
  assumes "valid_out r out" "out \<noteq> []"
  shows "render r out \<noteq> []" "(hd (render r out) = CHR ''/'') = r" "clean_out (render r out) = out"
proof -
  have el: "\<forall>x\<in>set (rev out). CHR ''/'' \<notin> set x" using assms valid_out_elems by auto
  have ne: "rev out \<noteq> []" using assms by simp
  have "hd (rev out) \<in> set out" using ne by (metis hd_in_set set_rev)
  then have h1: "hd (rev out) \<noteq> []" "CHR ''/'' \<notin> set (hd (rev out))"
    using assms valid_out_elems by blast+
  then have hne: "hd (hd (rev out)) \<noteq> CHR ''/''" by (cases "hd (rev out)") auto
  have sj: "strings_Join (rev out) ''/'' \<noteq> []" "hd (strings_Join (rev out) ''/'') = hd (hd (rev out))"
    using hd_strings_Join [OF ne h1(1)] by auto
  show 1: "render r out \<noteq> []" using sj by (simp add: render_def)
  show 2: "(hd (render r out) = CHR ''/'') = r" using sj hne by (simp add: render_def)
  have sp: "split_on CHR ''/'' (strings_Join (rev out) ''/'') = rev out"
    using split_on_Join [of "rev out" "CHR ''/''"] el ne by simp
  have "split_on CHR ''/'' (render r out) = (if r then [[]] else []) @ rev out"
    using sp by (simp add: render_def)
  then have "clean_out (render r out) = foldl (clean_step r) [] ((if r then [[]] else []) @ rev out)"
    using 1 2 by (simp add: clean_out_def)
  also have "\<dots> = foldl (clean_step r) [] (rev out)" by (simp add: clean_step_def)
  also have "\<dots> = out" using assms foldl_clean_rev by blast
  finally show "clean_out (render r out) = out" .
qed

lemma Join_render:
  assumes "simple_name x"
  shows "Join [h, x] = render (h \<noteq> [] \<and> hd h = CHR ''/'') (x # clean_out h)"
  using assms by (simp add: Join_simple dir_prefix_def render_def strings_Join_snoc)

lemma dir_prefix_Join:
  assumes "simple_name x"
  shows "dir_prefix (Join [h, x]) = Join [h, x] @ ''/''"
proof -
  let ?r = "h \<noteq> [] \<and> hd h = CHR ''/''"
  let ?out = "x # clean_out h"
  have v: "valid_out ?r ?out" using assms valid_clean_out [of h] by (simp add: simple_name_def)
  have ne: "?out \<noteq> []" by simp
  note rc = render_clean [OF v ne]
  have "dir_prefix (render ?r ?out) = render ?r ?out @ ''/''"
    using rc by (auto simp add: dir_prefix_def render_def)
  then show ?thesis using Join_render [OF assms] by simp
qed

lemma Join_Join:
  "simple_name x \<Longrightarrow> simple_name y \<Longrightarrow> Join [Join [h, x], y] = dir_prefix h @ x @ ''/'' @ y"
  using Join_simple [of y "Join [h, x]"] dir_prefix_Join [of x h] Join_simple [of x h] by simp

subsection \<open>Appending to a configuration file\<close>


lemma already_exported_iff:
  "already_exported w h cs \<longleftrightarrow> (\<exists>c\<in>set cs. has_export (read_lines w (Join [h, c])))"
  by (induction cs) (auto simp: read_lines_def has_export_def split: sum.splits)

lemma updatePath_present:
  "already_exported w h configFiles \<Longrightarrow> updatePath h w = (None, w)"
  by (simp add: updatePath_def)

lemma appendToFile_can:
  assumes "can_append w p"
  shows "appendToFile p pathExport w = (None, w\<lparr>files := (files w)(p \<mapsto> appended w p)\<rparr>)"
  using assms
  by (auto simp: can_append_def appendToFile_def OpenFile_append_def WriteString_def appended_def
      split: option.splits)

lemma appendToFile_cannot:
  assumes "\<not> can_append w p" "\<not> disk_full w"
  shows "\<exists>e. appendToFile p t w = (Some e, w)"
  using assms
  by (auto simp: can_append_def appendToFile_def OpenFile_append_def WriteString_def
      split: option.splits)

lemma appendToFile_full:
  assumes "disk_full w"
  shows "\<exists>e w'. appendToFile p t w = (Some e, w') \<and> disk_full w' \<and>
           stdout w' = stdout w \<and> (\<forall>q. content_at w' q = content_at w q)"
  using assms
  by (auto simp: appendToFile_def OpenFile_append_def WriteString_def content_at_def
      split: option.splits)

lemma updatePath_appends:
  assumes ne: "\<not> already_exported w h configFiles" and nf: "\<not> disk_full w"
  shows "fst (updatePath h w) =
           (case find (can_append w) (append_order w h) of
              Some p \<Rightarrow> None
            | None \<Rightarrow> Some ''failed to update any shell configuration file'')"
    and "files (snd (updatePath h w)) =
           (case find (can_append w) (append_order w h) of
              Some p \<Rightarrow> (files w)(p \<mapsto> appended w p)
            | None \<Rightarrow> files w)"
    and "find (can_append w) (append_order w h) = None \<longrightarrow>
           stdout (snd (updatePath h w)) = stdout w"
proof -
  let ?z = "Join [h, ''.zshrc'']"
  let ?bp = "Join [h, ''.bash_profile'']"
  let ?brc = "Join [h, ''.bashrc'']"
  let ?pr = "Join [h, ''.profile'']"
  let ?A = "\<lambda>p. appendToFile p pathExport w"
  have ok: "\<And>p. can_append w p \<Longrightarrow> ?A p = (None, w\<lparr>files := (files w)(p \<mapsto> appended w p)\<rparr>)"
    by (rule appendToFile_can)
  have no: "\<And>p. \<not> can_append w p \<Longrightarrow> \<exists>e. ?A p = (Some e, w)"
    using nf appendToFile_cannot by blast
  consider
      (z) "fileExists w ?z" "can_append w ?z"
    | (bp) "\<not> (fileExists w ?z \<and> can_append w ?z)" "can_append w ?bp"
    | (brc) "\<not> (fileExists w ?z \<and> can_append w ?z)" "\<not> can_append w ?bp" "can_append w ?brc"
    | (pr) "\<not> (fileExists w ?z \<and> can_append w ?z)" "\<not> can_append w ?bp" "\<not> can_append w ?brc"
        "can_append w ?pr"
    | (none) "\<not> (fileExists w ?z \<and> can_append w ?z)" "\<not> can_append w ?bp"
        "\<not> can_append w ?brc" "\<not> can_append w ?pr"
    by blast
  then have "fst (updatePath h w) =
           (case find (can_append w) (append_order w h) of
              Some p \<Rightarrow> None
            | None \<Rightarrow> Some ''failed to update any shell configuration file'') \<and>
        files (snd (updatePath h w)) =
           (case find (can_append w) (append_order w h) of
              Some p \<Rightarrow> (files w)(p \<mapsto> appended w p)
            | None \<Rightarrow> files w) \<and>
        (find (can_append w) (append_order w h) = None \<longrightarrow>
           stdout (snd (updatePath h w)) = stdout w)"
  proof cases
    case z
    then show ?thesis using ne ok [OF z(2)]
      by (simp add: updatePath_def append_order_def Printf_def Let_def)
  next
    case bp
    have w1: "(if fileExists w ?z then ?A ?z else (Some [], w)) = (Some [], w) \<or>
              (\<exists>e. (if fileExists w ?z then ?A ?z else (Some [], w)) = (Some e, w))"
      using bp(1) no [of ?z] by auto
    then obtain e1 where e1: "(if fileExists w ?z then ?A ?z else (Some [], w)) = (Some e1, w)"
      by blast
    show ?thesis using ne e1 bp ok [OF bp(2)]
      by (auto simp: updatePath_def append_order_def Printf_def Let_def)
  next
    case brc
    obtain e1 where e1: "(if fileExists w ?z then ?A ?z else (Some [], w)) = (Some e1, w)"
      using brc(1) no [of ?z] by (cases "fileExists w ?z") auto
    obtain e2 where e2: "?A ?bp = (Some e2, w)" using no [OF brc(2)] by blast
    show ?thesis using ne e1 e2 brc ok [OF brc(3)]
      by (auto simp: updatePath_def append_order_def Printf_def Let_def)
  next
    case pr
    obtain e1 where e1: "(if fileExists w ?z then ?A ?z else (Some [], w)) = (Some e1, w)"
      using pr(1) no [of ?z] by (cases "fileExists w ?z") auto
    obtain e2 where e2: "?A ?bp = (Some e2, w)" using no [OF pr(2)] by blast
    obtain e3 where e3: "?A ?brc = (Some e3, w)" using no [OF pr(3)] by blast
    show ?thesis using ne e1 e2 e3 pr ok [OF pr(4)]
      by (auto simp: updatePath_def append_order_def Printf_def Let_def)
  next
    case none
    obtain e1 where e1: "(if fileExists w ?z then ?A ?z else (Some [], w)) = (Some e1, w)"
      using none(1) no [of ?z] by (cases "fileExists w ?z") auto
    obtain e2 where e2: "?A ?bp = (Some e2, w)" using no [OF none(2)] by blast
    obtain e3 where e3: "?A ?brc = (Some e3, w)" using no [OF none(3)] by blast
    obtain e4 where e4: "?A ?pr = (Some e4, w)" using no [OF none(4)] by blast
    show ?thesis using ne e1 e2 e3 e4 none
      by (auto simp: updatePath_def append_order_def Errorf_def Let_def)
  qed
  then show "fst (updatePath h w) =
           (case find (can_append w) (append_order w h) of
              Some p \<Rightarrow> None
            | None \<Rightarrow> Some ''failed to update any shell configuration file'')"
    and "files (snd (updatePath h w)) =
           (case find (can_append w) (append_order w h) of
              Some p \<Rightarrow> (files w)(p \<mapsto> appended w p)
            | None \<Rightarrow> files w)"
    and "find (can_append w) (append_order w h) = None \<longrightarrow>
           stdout (snd (updatePath h w)) = stdout w"
    by blast+
qed

lemma updatePath_full:
  assumes ne: "\<not> already_exported w h configFiles" and full: "disk_full w"
  shows "fst (updatePath h w) = Some ''failed to update any shell configuration file''"
    and "content_at (snd (updatePath h w)) q = content_at w q"
    and "stdout (snd (updatePath h w)) = stdout w"
proof -
  let ?z = "Join [h, ''.zshrc'']"
  let ?bp = "Join [h, ''.bash_profile'']"
  let ?brc = "Join [h, ''.bashrc'']"
  let ?pr = "Join [h, ''.profile'']"
  obtain e1 w1 where 1: "(if fileExists w ?z then appendToFile ?z pathExport w else (Some [], w)) = (Some e1, w1)"
      "disk_full w1" "\<forall>q. content_at w1 q = content_at w q" "stdout w1 = stdout w"
    using appendToFile_full [OF full, of ?z pathExport] full by (cases "fileExists w ?z") auto
  obtain e2 w2 where 2: "appendToFile ?bp pathExport w1 = (Some e2, w2)"
      "disk_full w2" "\<forall>q. content_at w2 q = content_at w1 q" "stdout w2 = stdout w1"
    using appendToFile_full [OF 1(2)] by blast
  obtain e3 w3 where 3: "appendToFile ?brc pathExport w2 = (Some e3, w3)"
      "disk_full w3" "\<forall>q. content_at w3 q = content_at w2 q" "stdout w3 = stdout w2"
    using appendToFile_full [OF 2(2)] by blast
  obtain e4 w4 where 4: "appendToFile ?pr pathExport w3 = (Some e4, w4)"
      "disk_full w4" "\<forall>q. content_at w4 q = content_at w3 q" "stdout w4 = stdout w3"
    using appendToFile_full [OF 3(2)] by blast
  have "updatePath h w = (Some ''failed to update any shell configuration file'', w4)"
    using ne 1(1) 2(1) 3(1) 4(1) by (simp add: updatePath_def Errorf_def Let_def)
  then show "fst (updatePath h w) = Some ''failed to update any shell configuration file''"
    and "content_at (snd (updatePath h w)) q = content_at w q"
    and "stdout (snd (updatePath h w)) = stdout w"
    using 1(3,4) 2(3,4) 3(3,4) 4(3,4) by simp_all
qed

lemma updatePath_error:
  assumes "fst (updatePath h w) \<noteq> None"
  shows "fst (updatePath h w) = Some ''failed to update any shell configuration file''"
    and "stdout (snd (updatePath h w)) = stdout w"
proof -
  have ne: "\<not> already_exported w h configFiles"
    using assms updatePath_present by fastforce
  have "fst (updatePath h w) = Some ''failed to update any shell configuration file'' \<and>
        stdout (snd (updatePath h w)) = stdout w"
  proof (cases "disk_full w")
    case True
    then show ?thesis using updatePath_full(1,3) [OF ne] by simp
  next
    case False
    have "find (can_append w) (append_order w h) = None"
      using assms updatePath_appends(1) [OF ne False]
      by (cases "find (can_append w) (append_order w h)") auto
    then show ?thesis using updatePath_appends(1,3) [OF ne False] by simp
  qed
  then show "fst (updatePath h w) = Some ''failed to update any shell configuration file''"
    and "stdout (snd (updatePath h w)) = stdout w"
    by simp_all
qed

lemma appendToFile_keeps:
  "stdout (snd (appendToFile p t w)) = stdout w" "trace (snd (appendToFile p t w)) = trace w"
  by (auto simp: appendToFile_def OpenFile_append_def WriteString_def split: option.splits)

lemma trace_updatePath: "trace (snd (updatePath h w)) = trace w"
  by (simp add: updatePath_def Let_def split_beta appendToFile_keeps Printf_def)

lemma simple_config [simp]:
  "simple_name ''.zshrc''" "simple_name ''.bash_profile''" "simple_name ''.bashrc''"
  "simple_name ''.profile''" "simple_name ''bin''" "simple_name ''ollama''"
  "simple_name ''ollama.tgz''" "simple_name ''ollama-extract''"
  by (simp_all add: simple_name_def)

lemma dir_prefix_home_u: "dir_prefix ''/home/u'' = ''/home/u/''"
  by (simp add: dir_prefix_def clean_out_def clean_step_def)

lemma dir_prefix_empty: "dir_prefix [] = []"
  by (simp add: dir_prefix_def clean_out_def clean_step_def)

lemma Join_home_u: "simple_name x \<Longrightarrow> Join [''/home/u'', x] = ''/home/u/'' @ x"
  by (simp add: Join_simple dir_prefix_home_u)



lemma machine_simps [simp]:
  "files (machine fs mc) = fs" "may_create (machine fs mc) = mc" "disk_full (machine fs mc) = False"
  "HOME (machine fs mc) = ''/home/u''" "stdout (machine fs mc) = []" "trace (machine fs mc) = []"
  by (simp_all add: machine_def)

lemma not_exported_no_lines:
  "\<forall>c\<in>set configFiles. \<not> has_export (read_lines w (Join [h, c])) \<Longrightarrow>
   \<not> already_exported w h configFiles"
  by (simp add: already_exported_iff)

lemma read_lines_missing: "files w p = None \<Longrightarrow> read_lines w p = []"
  by (simp add: read_lines_def os_Open_def)

lemma has_export_Nil: "\<not> has_export []"
  by (simp add: has_export_def)

subsection \<open>The lines of a file\<close>

lemma nl_notin_pathExport: "nl \<notin> set pathExport"
  by (simp add: pathExport_def)




lemma split_on_appended:
  "split_on nl (data @ [nl] @ pathExport @ [nl]) = split_on nl data @ [pathExport, []]"
proof -
  have "split_on nl (pathExport @ nl # []) = split_on nl pathExport @ split_on nl []"
    by (rule split_on_append)
  then have "split_on nl (pathExport @ [nl]) = [pathExport, []]"
    using nl_notin_pathExport by (simp add: split_on_no_delim)
  moreover have "split_on nl (data @ nl # (pathExport @ [nl])) =
      split_on nl data @ split_on nl (pathExport @ [nl])"
    by (rule split_on_append)
  ultimately show ?thesis by simp
qed

lemma text_lines_appended:
  "text_lines (data @ [nl] @ pathExport @ [nl]) = split_on nl data @ [pathExport]"
  unfolding text_lines_def Let_def split_on_appended by (simp add: butlast_append)






lemma config_path: "c \<in> set configFiles \<Longrightarrow> Join [h, c] = dir_prefix h @ c"
  by (auto simp: configFiles_def Join_simple)


lemma content_at_appended:
  assumes "files w' = (files w)(p \<mapsto> appended w p)"
  shows "content_at w' q =
           (if q = p then content_at w p @ [nl] @ pathExport @ [nl] else content_at w q)"
  using assms by (auto simp: content_at_def appended_def split: option.splits)









lemma split_on_snoc:
  "c \<noteq> d \<Longrightarrow>
   split_on d (ys @ [c]) = butlast (split_on d ys) @ [last (split_on d ys) @ [c]]"
  using split_on_nonempty [of d] by (induction ys) (auto split: list.splits)

lemma last_split_on: "last (split_on d cs) = [] \<longleftrightarrow> cs = [] \<or> last cs = d"
proof (cases cs rule: rev_cases)
  case Nil
  then show ?thesis by simp
next
  case (snoc ys c)
  show ?thesis
  proof (cases "c = d")
    case True
    have "split_on d (ys @ d # []) = split_on d ys @ split_on d []" by (rule split_on_append)
    then show ?thesis using snoc True by simp
  next
    case False
    then show ?thesis using snoc split_on_snoc [OF False, of ys] by simp
  qed
qed

lemma split_on_text_lines:
  "split_on nl data = text_lines data @ (if data = [] \<or> last data = nl then [[]] else [])"
proof (cases "last (split_on nl data) = []")
  case True
  have "butlast (split_on nl data) @ [last (split_on nl data)] = split_on nl data"
    using split_on_nonempty by (rule append_butlast_last_id)
  then show ?thesis using True last_split_on [of nl data] by (simp add: text_lines_def)
next
  case False
  then show ?thesis using last_split_on [of nl data] by (simp add: text_lines_def)
qed







subsection \<open>The presence check\<close>








subsection \<open>The appended text\<close>

text \<open>
  C9, as amended. Whenever \<open>updatePath\<close> changes the bytes of a file, the new bytes are
  the old ones followed by a newline, the literal \<open>export PATH="$HOME/bin:$PATH"\<close> and a
  newline. The lines of the file are then the old lines, an empty line if the old text
  was empty or ended with a newline (none otherwise), and the literal as the last line:
  no line follows it.
\<close>

theorem updatePath_appended_text:
  assumes "content_at (snd (updatePath homeDir w)) p \<noteq> content_at w p"
  shows "content_at (snd (updatePath homeDir w)) p = content_at w p @ [nl] @ pathExport @ [nl]
       \<and> text_lines (content_at (snd (updatePath homeDir w)) p) =
           text_lines (content_at w p) @
           (if content_at w p = [] \<or> last (content_at w p) = nl then [[]] else []) @
           [pathExport]"
proof -
  have eq: "content_at (snd (updatePath homeDir w)) p = content_at w p @ [nl] @ pathExport @ [nl]"
  proof (cases "already_exported w homeDir configFiles")
    case True
    then show ?thesis using assms by (simp add: updatePath_present)
  next
    case False
    show ?thesis
    proof (cases "disk_full w")
      case True
      then show ?thesis using assms updatePath_full(2) [OF False] by blast
    next
      case nf: False
      show ?thesis
      proof (cases "find (can_append w) (append_order w homeDir)")
        case None
        then have "files (snd (updatePath homeDir w)) = files w"
          using updatePath_appends(2) [OF False nf] by simp
        then show ?thesis using assms by (simp add: content_at_def)
      next
        case (Some q)
        then have fs: "files (snd (updatePath homeDir w)) = (files w)(q \<mapsto> appended w q)"
          using updatePath_appends(2) [OF False nf] by simp
        then have "p = q" using assms by (auto simp: content_at_def split: if_splits)
        then show ?thesis using fs
          by (auto simp: content_at_def appended_def split: option.splits)
      qed
    qed
  qed
  have "text_lines (content_at w p @ [nl] @ pathExport @ [nl]) =
          split_on nl (content_at w p) @ [pathExport]"
    by (rule text_lines_appended)
  also have "\<dots> = (text_lines (content_at w p) @
           (if content_at w p = [] \<or> last (content_at w p) = nl then [[]] else [])) @
           [pathExport]"
    by (simp only: split_on_text_lines [symmetric])
  finally show ?thesis unfolding eq by simp
qed

lemma empty_home_not_exported: "\<not> already_exported empty_home ''/home/u'' configFiles"
  by (rule not_exported_no_lines)
    (simp add: configFiles_def empty_home_def read_lines_missing has_export_Nil)

lemma empty_home_target:
  "find (can_append empty_home) (append_order empty_home ''/home/u'') = Some ''/home/u/.bash_profile''"
  by (simp add: append_order_def fileExists_def can_append_def empty_home_def Join_home_u)

lemma empty_home_files:
  "files (snd (updatePath ''/home/u'' empty_home)) =
     [''/home/u/.bash_profile'' \<mapsto> plain_file ([nl] @ pathExport @ [nl])]"
  using updatePath_appends(2) [OF empty_home_not_exported] empty_home_target
  by (simp add: appended_def plain_file_def empty_home_def)

lemma unterminated_not_exported: "\<not> already_exported unterminated_zshrc ''/home/u'' configFiles"
proof -
  have "read_lines unterminated_zshrc ''/home/u/.zshrc'' = [''abc'']"
    by (simp add: read_lines_def os_Open_def unterminated_zshrc_def plain_file_def
        Scanner_lines_def text_lines_def dropCR_def MaxScanTokenSize_def)
  then show ?thesis
    by (intro not_exported_no_lines)
      (simp add: configFiles_def Join_home_u has_export_def read_lines_missing
        unterminated_zshrc_def pathExport_def)
qed

lemma unterminated_target:
  "find (can_append unterminated_zshrc) (append_order unterminated_zshrc ''/home/u'')
     = Some ''/home/u/.zshrc''"
  by (simp add: append_order_def fileExists_def can_append_def unterminated_zshrc_def
      Join_home_u plain_file_def)

lemma unterminated_content:
  "content_at unterminated_zshrc ''/home/u/.zshrc'' = ''abc''"
  "content_at (snd (updatePath ''/home/u'' unterminated_zshrc)) ''/home/u/.zshrc''
     = ''abc'' @ [nl] @ pathExport @ [nl]"
proof -
  have nf: "\<not> disk_full unterminated_zshrc" by (simp add: unterminated_zshrc_def)
  show c: "content_at unterminated_zshrc ''/home/u/.zshrc'' = ''abc''"
    by (simp add: content_at_def unterminated_zshrc_def plain_file_def)
  have "files (snd (updatePath ''/home/u'' unterminated_zshrc)) =
          (files unterminated_zshrc)(''/home/u/.zshrc'' \<mapsto>
             appended unterminated_zshrc ''/home/u/.zshrc'')"
    using updatePath_appends(2) [OF unterminated_not_exported nf] unterminated_target by simp
  from content_at_appended [OF this, of "''/home/u/.zshrc''"]
  show "content_at (snd (updatePath ''/home/u'' unterminated_zshrc)) ''/home/u/.zshrc''
     = ''abc'' @ [nl] @ pathExport @ [nl]"
    using c by simp
qed

theorem updatePath_appended_text_witness:
  "content_at (snd (updatePath ''/home/u'' empty_home)) ''/home/u/.bash_profile''
     \<noteq> content_at empty_home ''/home/u/.bash_profile''
   \<and> content_at (snd (updatePath ''/home/u'' empty_home)) ''/home/u/.bash_profile''
     = [nl] @ pathExport @ [nl]
   \<and> text_lines (content_at (snd (updatePath ''/home/u'' empty_home)) ''/home/u/.bash_profile'')
     = [[], pathExport]
   \<and> content_at (snd (updatePath ''/home/u'' unterminated_zshrc)) ''/home/u/.zshrc''
     \<noteq> content_at unterminated_zshrc ''/home/u/.zshrc''
   \<and> text_lines (content_at (snd (updatePath ''/home/u'' unterminated_zshrc)) ''/home/u/.zshrc'')
     = text_lines ''abc'' @ [pathExport]"
proof -
  have e: "content_at empty_home ''/home/u/.bash_profile'' = []"
    by (simp add: content_at_def empty_home_def)
  have h: "content_at (snd (updatePath ''/home/u'' empty_home)) ''/home/u/.bash_profile''
     \<noteq> content_at empty_home ''/home/u/.bash_profile''"
    unfolding e by (simp add: content_at_def empty_home_files plain_file_def)
  have g: "content_at (snd (updatePath ''/home/u'' unterminated_zshrc)) ''/home/u/.zshrc''
     \<noteq> content_at unterminated_zshrc ''/home/u/.zshrc''"
    unfolding unterminated_content by simp
  have t: "text_lines [] = []" by (simp add: text_lines_def)
  note A = updatePath_appended_text [OF h]
  note B = updatePath_appended_text [OF g]
  have a1: "content_at (snd (updatePath ''/home/u'' empty_home)) ''/home/u/.bash_profile''
     = [nl] @ pathExport @ [nl]"
    using conjunct1 [OF A] by (simp add: e)
  have a2: "text_lines (content_at (snd (updatePath ''/home/u'' empty_home))
              ''/home/u/.bash_profile'') = [[], pathExport]"
    using conjunct2 [OF A] by (simp add: e t)
  have b2: "text_lines (content_at (snd (updatePath ''/home/u'' unterminated_zshrc))
              ''/home/u/.zshrc'') = text_lines ''abc'' @ [pathExport]"
    using conjunct2 [OF B] by (simp add: unterminated_content(1))
  show ?thesis using h g a1 a2 b2 by blast
qed

text \<open>
  C9, as stated, fails: where \<open>.zshrc\<close> is \<open>abc\<close> with no newline at its end, the
  file has two lines after \<open>updatePath\<close>, \<open>abc\<close> and the literal, with no empty line
  before the literal and none after it.
\<close>

theorem updatePath_no_blank_line_counterexample:
  "content_at unterminated_zshrc ''/home/u/.zshrc'' = ''abc''
   \<and> content_at (snd (updatePath ''/home/u'' unterminated_zshrc)) ''/home/u/.zshrc''
       = ''abc'' @ [nl] @ pathExport @ [nl]
   \<and> text_lines (content_at (snd (updatePath ''/home/u'' unterminated_zshrc)) ''/home/u/.zshrc'')
       = [''abc'', pathExport]"
proof -
  have "text_lines (''abc'' @ [nl] @ pathExport @ [nl]) = split_on nl ''abc'' @ [pathExport]"
    by (rule text_lines_appended)
  then have "text_lines (''abc'' @ [nl] @ pathExport @ [nl]) = [''abc'', pathExport]"
    by simp
  then show ?thesis unfolding unterminated_content by simp
qed

subsection \<open>The file that receives the line\<close>


lemma readonly_home_not_exported: "\<not> already_exported readonly_home ''/home/u'' configFiles"
  by (rule not_exported_no_lines)
    (simp add: configFiles_def readonly_home_def read_lines_missing has_export_Nil)




subsection \<open>Running updatePath twice\<close>











subsection \<open>The installer\<close>

lemma install_paths:
  "Join [h, ''ollama.tgz''] = dir_prefix h @ ''ollama.tgz''"
  "Join [h, ''bin''] = dir_prefix h @ ''bin''"
  "Join [h, ''ollama-extract''] = dir_prefix h @ ''ollama-extract''"
  "Join [Join [h, ''bin''], ''ollama''] = dir_prefix h @ ''bin/ollama''"
  using Join_Join [of "''bin''" "''ollama''" h] by (simp_all add: Join_simple)

lemma final_path_eq: "Join [Join [h, ''bin''], ''ollama''] = dir_prefix h @ ''bin/ollama''"
  by (rule install_paths(4))


lemma split_result:
  "(case r of (Some err, w') \<Rightarrow> f err w' | (None, w') \<Rightarrow> g w') =
   (case fst r of Some err \<Rightarrow> f err (snd r) | None \<Rightarrow> g (snd r))"
  by (cases r; cases "fst r"; simp)

lemma Printf_fields:
  "files (Printf fmt args w) = files w" "trace (Printf fmt args w) = trace w"
  "stdout (Printf fmt args w) = stdout w @ [Sprintf fmt args]"
  "exit_status (Printf fmt args w) = exit_status w"
  "mkdir_error (Printf fmt args w) = mkdir_error w"
  "effect (Printf fmt args w) = effect w"
  "may_create (Printf fmt args w) = may_create w" "disk_full (Printf fmt args w) = disk_full w"
  by (simp_all add: Printf_def)

lemma Run_fields:
  "fst (Run argv w) = exit_status w argv"
  "files (snd (Run argv w)) = effect w argv (files w)"
  "trace (snd (Run argv w)) = trace w @ [Exec argv]"
  "stdout (snd (Run argv w)) = stdout w"
  "exit_status (snd (Run argv w)) = exit_status w"
  "mkdir_error (snd (Run argv w)) = mkdir_error w"
  "effect (snd (Run argv w)) = effect w"
  "may_create (snd (Run argv w)) = may_create w" "disk_full (snd (Run argv w)) = disk_full w"
  by (simp_all add: Run_def)

lemma MkdirAll_fields:
  "fst (MkdirAll path w) = mkdir_error w path"
  "files (snd (MkdirAll path w)) = files w"
  "trace (snd (MkdirAll path w)) = trace w @ [MkdirAllCall path]"
  "stdout (snd (MkdirAll path w)) = stdout w"
  "exit_status (snd (MkdirAll path w)) = exit_status w"
  "mkdir_error (snd (MkdirAll path w)) = mkdir_error w"
  "effect (snd (MkdirAll path w)) = effect w"
  "may_create (snd (MkdirAll path w)) = may_create w"
  "disk_full (snd (MkdirAll path w)) = disk_full w"
  by (simp_all add: MkdirAll_def)

lemma RemoveAll_fields:
  "files (RemoveAll path w) = (\<lambda>p. if under path p then None else files w p)"
  "trace (RemoveAll path w) = trace w @ [RemoveAllCall path]"
  "stdout (RemoveAll path w) = stdout w"
  "exit_status (RemoveAll path w) = exit_status w"
  "mkdir_error (RemoveAll path w) = mkdir_error w"
  "effect (RemoveAll path w) = effect w"
  "may_create (RemoveAll path w) = may_create w" "disk_full (RemoveAll path w) = disk_full w"
  by (simp_all add: RemoveAll_def)

lemma Remove_fields:
  "files (Remove name w) = (files w)(name := None)"
  "trace (Remove name w) = trace w @ [RemoveCall name]"
  "stdout (Remove name w) = stdout w"
  "exit_status (Remove name w) = exit_status w"
  "mkdir_error (Remove name w) = mkdir_error w"
  "effect (Remove name w) = effect w"
  "may_create (Remove name w) = may_create w" "disk_full (Remove name w) = disk_full w"
  by (simp_all add: Remove_def)

lemmas step_fields = Printf_fields Run_fields MkdirAll_fields RemoveAll_fields Remove_fields

lemmas installOllama_steps = installOllama_def Let_def split_result step_fields


lemma machine_fields:
  "exit_status (machine fs mc) = (\<lambda>argv. None)" "mkdir_error (machine fs mc) = (\<lambda>p. None)"
  "effect (machine fs mc) = (\<lambda>argv fs. fs)"
  by (simp_all add: machine_def)



lemma installOllama_continues:
  assumes "exit_status w (curl_command url w) = None"
    and "mkdir_error w (Join [fst (UserHomeDir w), ''bin'']) = None"
    and "exit_status w (tar_command w) = None"
    and "exit_status w (mv_command w) = None"
    and "exit_status w (chmod_command w) = None"
  shows "installOllama url w =
     (None,
      Printf (''Please restart your terminal OR log out and log back in to use the new version'' @ [nl]) []
        (Printf (''Ollama installed successfully to %s'' @ [nl]) [final_path w]
          (case fst (updatePath (fst (UserHomeDir w)) (before_updatePath url w)) of
             Some e \<Rightarrow> Printf (''Warning: Failed to update PATH: %v'' @ [nl]) [e]
                         (snd (updatePath (fst (UserHomeDir w)) (before_updatePath url w)))
           | None \<Rightarrow> snd (updatePath (fst (UserHomeDir w)) (before_updatePath url w)))))"
  using assms unfolding before_updatePath_def Let_def
  by (simp add: installOllama_steps final_path_def split_beta
      curl_command_def tar_command_def mv_command_def chmod_command_def
      cong: option.case_cong)

lemma trace_before_updatePath:
  "trace (before_updatePath url w) =
     trace w @
     [Exec (curl_command url w),
      MkdirAllCall (Join [fst (UserHomeDir w), ''bin'']),
      RemoveAllCall (Join [fst (UserHomeDir w), ''ollama-extract'']),
      MkdirAllCall (Join [fst (UserHomeDir w), ''ollama-extract'']),
      Exec (tar_command w), Exec (mv_command w), Exec (chmod_command w),
      RemoveCall (Join [fst (UserHomeDir w), ''ollama.tgz'']),
      RemoveAllCall (Join [fst (UserHomeDir w), ''ollama-extract''])]"
  by (simp add: before_updatePath_def Let_def step_fields
      curl_command_def tar_command_def mv_command_def chmod_command_def)

lemma stdout_before_updatePath:
  "stdout (before_updatePath url w) =
     stdout w @ [''Downloading Ollama from '' @ url @ ''...'' @ [nl],
                 ''Extracting Ollama binary...'' @ [nl]]"
  by (simp add: before_updatePath_def Let_def step_fields)

text \<open>
  C7. A failure of \<open>updatePath\<close> does not fail the installation. When the download,
  the bin directory, the extraction, the move and the chmod succeed, \<open>installOllama\<close>
  returns \<open>nil\<close>, whatever \<open>updatePath\<close> returns; and when \<open>updatePath\<close> fails, which
  it does only when every append attempt has failed, the output is the two progress
  lines, the warning with the error of \<open>updatePath\<close>, and the two closing lines.
\<close>

theorem installOllama_path_failure_is_warning:
  assumes "exit_status w (curl_command url w) = None"
    and "mkdir_error w (Join [fst (UserHomeDir w), ''bin'']) = None"
    and "exit_status w (tar_command w) = None"
    and "exit_status w (mv_command w) = None"
    and "exit_status w (chmod_command w) = None"
  shows "fst (installOllama url w) = None
       \<and> (fst (updatePath (fst (UserHomeDir w)) (before_updatePath url w)) \<noteq> None \<longrightarrow>
            stdout (snd (installOllama url w)) =
              stdout w @
              [''Downloading Ollama from '' @ url @ ''...'' @ [nl],
               ''Extracting Ollama binary...'' @ [nl],
               ''Warning: Failed to update PATH: failed to update any shell configuration file'' @ [nl],
               ''Ollama installed successfully to '' @ final_path w @ [nl],
               ''Please restart your terminal OR log out and log back in to use the new version'' @ [nl]])"
proof (intro conjI impI)
  note run = installOllama_continues [OF assms]
  show "fst (installOllama url w) = None" by (simp add: run)
  assume f: "fst (updatePath (fst (UserHomeDir w)) (before_updatePath url w)) \<noteq> None"
  note e = updatePath_error [OF f]
  show "stdout (snd (installOllama url w)) =
              stdout w @
              [''Downloading Ollama from '' @ url @ ''...'' @ [nl],
               ''Extracting Ollama binary...'' @ [nl],
               ''Warning: Failed to update PATH: failed to update any shell configuration file'' @ [nl],
               ''Ollama installed successfully to '' @ final_path w @ [nl],
               ''Please restart your terminal OR log out and log back in to use the new version'' @ [nl]]"
    by (simp add: run e Printf_fields stdout_before_updatePath)
qed

lemma empty_files_kept:
  "files w = Map.empty \<Longrightarrow> files (Printf fmt args w) = Map.empty"
  "files w = Map.empty \<Longrightarrow> effect w = (\<lambda>argv fs. fs) \<Longrightarrow> files (snd (Run argv w)) = Map.empty"
  "files w = Map.empty \<Longrightarrow> files (snd (MkdirAll path w)) = Map.empty"
  "files w = Map.empty \<Longrightarrow> files (RemoveAll path w) = Map.empty"
  "files w = Map.empty \<Longrightarrow> files (Remove name w) = Map.empty"
  by (simp_all add: step_fields fun_eq_iff)

lemma readonly_home_before:
  "files (before_updatePath url readonly_home) = Map.empty"
  "may_create (before_updatePath url readonly_home) = (\<lambda>p. False)"
  "disk_full (before_updatePath url readonly_home) = False"
proof -
  have e: "files readonly_home = Map.empty" "effect readonly_home = (\<lambda>argv fs. fs)"
    by (simp_all add: readonly_home_def machine_fields)
  show "files (before_updatePath url readonly_home) = Map.empty"
    unfolding before_updatePath_def Let_def
    by (simp add: empty_files_kept e Printf_fields(6) Run_fields(7) MkdirAll_fields(7)
        RemoveAll_fields(6) Remove_fields(6))
  show "may_create (before_updatePath url readonly_home) = (\<lambda>p. False)"
    "disk_full (before_updatePath url readonly_home) = False"
    by (simp_all add: before_updatePath_def Let_def step_fields readonly_home_def)
qed

lemma readonly_home_updatePath_fails:
  "fst (updatePath ''/home/u'' (before_updatePath url readonly_home)) \<noteq> None"
proof -
  let ?w = "before_updatePath url readonly_home"
  have ne: "\<not> already_exported ?w ''/home/u'' configFiles"
    by (rule not_exported_no_lines)
      (simp add: configFiles_def readonly_home_before read_lines_missing has_export_Nil)
  have nf: "\<not> disk_full ?w" by (simp add: readonly_home_before)
  have "find (can_append ?w) (append_order ?w ''/home/u'') = None"
    by (simp add: append_order_def fileExists_def can_append_def readonly_home_before)
  then show ?thesis using updatePath_appends(1) [OF ne nf] by simp
qed

lemma UserHomeDir_machine: "UserHomeDir (machine fs mc) = (''/home/u'', None)"
  by (simp add: UserHomeDir_def machine_fields)

theorem installOllama_path_failure_is_warning_witness:
  "fst (updatePath ''/home/u'' (before_updatePath ''https://example.org/o.tgz'' readonly_home)) \<noteq> None
   \<and> fst (installOllama ''https://example.org/o.tgz'' readonly_home) = None
   \<and> stdout (snd (installOllama ''https://example.org/o.tgz'' readonly_home)) =
       [''Downloading Ollama from https://example.org/o.tgz...'' @ [nl],
        ''Extracting Ollama binary...'' @ [nl],
        ''Warning: Failed to update PATH: failed to update any shell configuration file'' @ [nl],
        ''Ollama installed successfully to /home/u/bin/ollama'' @ [nl],
        ''Please restart your terminal OR log out and log back in to use the new version'' @ [nl]]"
proof -
  let ?url = "''https://example.org/o.tgz''"
  have h: "fst (UserHomeDir readonly_home) = ''/home/u''"
    by (simp add: readonly_home_def UserHomeDir_machine)
  have ok: "exit_status readonly_home (curl_command ?url readonly_home) = None"
      "mkdir_error readonly_home (Join [fst (UserHomeDir readonly_home), ''bin'']) = None"
      "exit_status readonly_home (tar_command readonly_home) = None"
      "exit_status readonly_home (mv_command readonly_home) = None"
      "exit_status readonly_home (chmod_command readonly_home) = None"
    by (simp_all add: readonly_home_def machine_fields)
  have fp: "final_path readonly_home = ''/home/u/bin/ollama''"
    by (simp add: final_path_def h final_path_eq dir_prefix_home_u)
  have st: "stdout readonly_home = []" by (simp add: readonly_home_def)
  have f: "fst (updatePath (fst (UserHomeDir readonly_home))
                  (before_updatePath ?url readonly_home)) \<noteq> None"
    unfolding h by (rule readonly_home_updatePath_fails)
  note inst = installOllama_path_failure_is_warning [OF ok]
  from inst have a: "fst (installOllama ?url readonly_home) = None" by blast
  from inst f have "stdout (snd (installOllama ?url readonly_home)) =
      stdout readonly_home @
      [''Downloading Ollama from '' @ ?url @ ''...'' @ [nl],
       ''Extracting Ollama binary...'' @ [nl],
       ''Warning: Failed to update PATH: failed to update any shell configuration file'' @ [nl],
       ''Ollama installed successfully to '' @ final_path readonly_home @ [nl],
       ''Please restart your terminal OR log out and log back in to use the new version'' @ [nl]]"
    by blast
  then have b: "stdout (snd (installOllama ?url readonly_home)) =
       [''Downloading Ollama from https://example.org/o.tgz...'' @ [nl],
        ''Extracting Ollama binary...'' @ [nl],
        ''Warning: Failed to update PATH: failed to update any shell configuration file'' @ [nl],
        ''Ollama installed successfully to /home/u/bin/ollama'' @ [nl],
        ''Please restart your terminal OR log out and log back in to use the new version'' @ [nl]]"
    by (simp add: st fp)
  show ?thesis using a b readonly_home_updatePath_fails [of ?url] by blast
qed

lemma trace_installOllama_success:
  assumes "exit_status w (curl_command url w) = None"
    and "mkdir_error w (Join [fst (UserHomeDir w), ''bin'']) = None"
    and "exit_status w (tar_command w) = None"
    and "exit_status w (mv_command w) = None"
    and "exit_status w (chmod_command w) = None"
  shows "trace (snd (installOllama url w)) = trace (before_updatePath url w)"
  by (simp add: installOllama_continues [OF assms] Printf_fields trace_updatePath
      split: option.splits)

lemma Join_no_home:
  "Join [[], ''ollama.tgz''] = ''ollama.tgz''" "Join [[], ''bin''] = ''bin''"
  "Join [[], ''ollama-extract''] = ''ollama-extract''" "Join [''bin'', ''ollama''] = ''bin/ollama''"
  "Join [''ollama-extract'', ''bin'', ''ollama''] = ''ollama-extract/bin/ollama''"
  by (simp_all add: Join_def Clean_def clean_step_def)

text \<open>
  C8. If \<open>os.UserHomeDir\<close> returns an error, \<open>installOllama\<close> drops it and goes on
  with the empty string as home directory: it does not return there but runs curl with
  the output file \<open>ollama.tgz\<close>, and when every step succeeds it returns \<open>nil\<close>
  after working on \<open>bin\<close>, \<open>ollama-extract\<close>, \<open>ollama-extract/bin/ollama\<close> and
  \<open>bin/ollama\<close>, all relative paths.
\<close>

theorem installOllama_home_unresolved:
  assumes "snd (UserHomeDir w) \<noteq> None"
  shows "fst (UserHomeDir w) = []
       \<and> (\<exists>evs. trace (snd (installOllama url w)) =
             trace w @ Exec [''curl'', ''-L'', ''-#'', url, ''-o'', ''ollama.tgz''] # evs)
       \<and> ((\<forall>argv. exit_status w argv = None) \<and> (\<forall>p. mkdir_error w p = None) \<longrightarrow>
            fst (installOllama url w) = None \<and>
            trace (snd (installOllama url w)) =
              trace w @
              [Exec [''curl'', ''-L'', ''-#'', url, ''-o'', ''ollama.tgz''],
               MkdirAllCall ''bin'',
               RemoveAllCall ''ollama-extract'',
               MkdirAllCall ''ollama-extract'',
               Exec [''tar'', ''-xzf'', ''ollama.tgz'', ''-C'', ''ollama-extract''],
               Exec [''mv'', ''ollama-extract/bin/ollama'', ''bin/ollama''],
               Exec [''chmod'', ''+x'', ''bin/ollama''],
               RemoveCall ''ollama.tgz'',
               RemoveAllCall ''ollama-extract''])"
proof -
  have h: "fst (UserHomeDir w) = []"
    using assms by (simp add: UserHomeDir_def split: if_splits)
  let ?curl = "[''curl'', ''-L'', ''-#'', url, ''-o'', ''ollama.tgz'']"
  let ?tar = "[''tar'', ''-xzf'', ''ollama.tgz'', ''-C'', ''ollama-extract'']"
  let ?mv = "[''mv'', ''ollama-extract/bin/ollama'', ''bin/ollama'']"
  let ?chmod = "[''chmod'', ''+x'', ''bin/ollama'']"
  have cmds: "curl_command url w = ?curl" "tar_command w = ?tar" "mv_command w = ?mv"
      "chmod_command w = ?chmod"
    by (simp_all add: curl_command_def tar_command_def mv_command_def chmod_command_def h
        Join_no_home)
  have success: "exit_status w ?curl = None \<Longrightarrow> mkdir_error w ''bin'' = None \<Longrightarrow>
      exit_status w ?tar = None \<Longrightarrow> exit_status w ?mv = None \<Longrightarrow>
      exit_status w ?chmod = None \<Longrightarrow>
      fst (installOllama url w) = None \<and>
      trace (snd (installOllama url w)) =
        trace w @
        [Exec ?curl, MkdirAllCall ''bin'', RemoveAllCall ''ollama-extract'',
         MkdirAllCall ''ollama-extract'', Exec ?tar, Exec ?mv, Exec ?chmod,
         RemoveCall ''ollama.tgz'', RemoveAllCall ''ollama-extract'']"
    using trace_installOllama_success [of w url] installOllama_continues [of w url]
      trace_before_updatePath [of url w]
    by (simp add: cmds h Join_no_home)
  note steps = installOllama_steps h Join_no_home
  have first: "\<exists>evs. trace (snd (installOllama url w)) = trace w @ Exec ?curl # evs"
  proof (cases "exit_status w ?curl")
    case (Some e)
    then show ?thesis by (simp add: steps)
  next
    case c: None
    show ?thesis
    proof (cases "mkdir_error w ''bin''")
      case (Some e)
      then show ?thesis using c by (simp add: steps)
    next
      case m: None
      show ?thesis
      proof (cases "exit_status w ?tar")
        case (Some e)
        then show ?thesis using c m by (simp add: steps)
      next
        case t: None
        show ?thesis
        proof (cases "exit_status w ?mv")
          case (Some e)
          then show ?thesis using c m t by (simp add: steps)
        next
          case v: None
          show ?thesis
          proof (cases "exit_status w ?chmod")
            case (Some e)
            then show ?thesis using c m t v by (simp add: steps)
          next
            case None
            then show ?thesis using success c m t v by simp
          qed
        qed
      qed
    qed
  qed
  have all: "(\<forall>argv. exit_status w argv = None) \<and> (\<forall>p. mkdir_error w p = None) \<longrightarrow>
            fst (installOllama url w) = None \<and>
            trace (snd (installOllama url w)) =
              trace w @
              [Exec ?curl, MkdirAllCall ''bin'', RemoveAllCall ''ollama-extract'',
               MkdirAllCall ''ollama-extract'', Exec ?tar, Exec ?mv, Exec ?chmod,
               RemoveCall ''ollama.tgz'', RemoveAllCall ''ollama-extract'']"
  proof (intro impI)
    assume a: "(\<forall>argv. exit_status w argv = None) \<and> (\<forall>p. mkdir_error w p = None)"
    show "fst (installOllama url w) = None \<and>
            trace (snd (installOllama url w)) =
              trace w @
              [Exec ?curl, MkdirAllCall ''bin'', RemoveAllCall ''ollama-extract'',
               MkdirAllCall ''ollama-extract'', Exec ?tar, Exec ?mv, Exec ?chmod,
               RemoveCall ''ollama.tgz'', RemoveAllCall ''ollama-extract'']"
      by (rule success) (simp_all add: a)
  qed
  show ?thesis using h first all by blast
qed

theorem installOllama_home_unresolved_witness:
  "snd (UserHomeDir no_home) \<noteq> None
   \<and> fst (UserHomeDir no_home) = []
   \<and> fst (installOllama ''https://example.org/o.tgz'' no_home) = None
   \<and> trace (snd (installOllama ''https://example.org/o.tgz'' no_home)) =
       [Exec [''curl'', ''-L'', ''-#'', ''https://example.org/o.tgz'', ''-o'', ''ollama.tgz''],
        MkdirAllCall ''bin'',
        RemoveAllCall ''ollama-extract'',
        MkdirAllCall ''ollama-extract'',
        Exec [''tar'', ''-xzf'', ''ollama.tgz'', ''-C'', ''ollama-extract''],
        Exec [''mv'', ''ollama-extract/bin/ollama'', ''bin/ollama''],
        Exec [''chmod'', ''+x'', ''bin/ollama''],
        RemoveCall ''ollama.tgz'',
        RemoveAllCall ''ollama-extract'']"
proof -
  have a: "snd (UserHomeDir no_home) \<noteq> None" by (simp add: UserHomeDir_def no_home_def)
  have b: "(\<forall>argv. exit_status no_home argv = None) \<and> (\<forall>p. mkdir_error no_home p = None)"
    by (simp add: no_home_def machine_fields)
  have c: "trace no_home = []" by (simp add: no_home_def)
  note inst = installOllama_home_unresolved [OF a, of "''https://example.org/o.tgz''"]
  from inst have 1: "fst (UserHomeDir no_home) = []" by blast
  from inst b have 2: "fst (installOllama ''https://example.org/o.tgz'' no_home) = None \<and>
      trace (snd (installOllama ''https://example.org/o.tgz'' no_home)) =
       trace no_home @
       [Exec [''curl'', ''-L'', ''-#'', ''https://example.org/o.tgz'', ''-o'', ''ollama.tgz''],
        MkdirAllCall ''bin'',
        RemoveAllCall ''ollama-extract'',
        MkdirAllCall ''ollama-extract'',
        Exec [''tar'', ''-xzf'', ''ollama.tgz'', ''-C'', ''ollama-extract''],
        Exec [''mv'', ''ollama-extract/bin/ollama'', ''bin/ollama''],
        Exec [''chmod'', ''+x'', ''bin/ollama''],
        RemoveCall ''ollama.tgz'',
        RemoveAllCall ''ollama-extract'']"
    by blast
  show ?thesis using a 1 2 by (simp add: c)
qed

subsection \<open>The version resolver\<close>
















subsection \<open>The URL builder\<close>

text \<open>
  C3. \<open>getDownloadURL\<close> is a function of its argument alone: for every version string
  \<open>v\<close> it returns the release download prefix, then \<open>v\<close>, then
  \<open>/ollama-linux-amd64.tgz\<close>. For \<open>v0.5.2\<close> this is the URL of the scenario; the result
  always ends with the asset file name and contains \<open>v\<close> verbatim.
\<close>

theorem getDownloadURL_format:
  "getDownloadURL v =
     ''https://github.com/ollama/ollama/releases/download/'' @ v @ ''/ollama-linux-amd64.tgz''
   \<and> getDownloadURL ''v0.5.2'' =
     ''https://github.com/ollama/ollama/releases/download/v0.5.2/ollama-linux-amd64.tgz''
   \<and> suffix ''/ollama-linux-amd64.tgz'' (getDownloadURL v)
   \<and> Contains (getDownloadURL v) v"
proof -
  have eq: "\<And>u. getDownloadURL u =
      ''https://github.com/ollama/ollama/releases/download/'' @ u @ ''/ollama-linux-amd64.tgz''"
    by (simp add: getDownloadURL_def)
  have "suffix ''/ollama-linux-amd64.tgz'' (getDownloadURL v)"
    unfolding eq suffix_def by (metis append.assoc)
  moreover have "Contains (getDownloadURL v) v"
    unfolding eq Contains_iff by blast
  moreover have "getDownloadURL ''v0.5.2'' =
     ''https://github.com/ollama/ollama/releases/download/v0.5.2/ollama-linux-amd64.tgz''"
    by (simp add: eq)
  ultimately show ?thesis using eq by blast
qed

end
